theory Spec2Isabelle
  imports Complex_Main "HOL-Library.AList"
begin

section \<open>JavaScript values\<close>

text \<open>
  The dispatch core is dynamically typed: request bodies, parameter sources and parsed
  arguments are arbitrary JavaScript values. A JavaScript number is an IEEE double; its
  value is modelled exactly, as a rational or one of the three special values. Comparison
  of doubles is comparison of these values, so nothing is lost there. \<open>JUndefined\<close>
  is the value of an absent property.

  A plain object used as a dictionary is an association list of its own enumerable
  properties, in enumeration order (\<open>for .. in\<close> and \<open>Object.keys\<close> walk it in that
  order). Property names are unique in a JavaScript object; theorems that depend on it
  assume \<open>distinct\<close> keys. A read \<open>obj[key]\<close> also finds the members inherited
  from \<open>Object.prototype\<close> (\<open>toString\<close>, \<open>constructor\<close>, ...). For the registry,
  whose keys are the names callers send, the inherited members are part of the model
  (see \<open>get_command\<close>). The names of a command's parameters are written by the
  developer of the command and are taken not to be among them.
\<close>

datatype jsnum = NaN | Fin rat | PosInf | NegInf

datatype jsval =
    JUndefined
  | JNull
  | JBool bool
  | JNum jsnum
  | JStr string
  | JArr "jsval list"
  | JObj "(string \<times> jsval) list"

type_synonym jsobj = "(string \<times> jsval) list"

text \<open>\<open>!v\<close> is true exactly on the falsy values.\<close>

fun falsy :: "jsval \<Rightarrow> bool" where
  "falsy JUndefined = True"
| "falsy JNull = True"
| "falsy (JBool b) = (\<not> b)"
| "falsy (JNum n) = (n = NaN \<or> n = Fin 0)"
| "falsy (JStr s) = (s = [])"
| "falsy (JArr xs) = False"
| "falsy (JObj ps) = False"

text \<open>\<open>v == null\<close> holds for \<open>null\<close> and \<open>undefined\<close> only.\<close>

fun nullish :: "jsval \<Rightarrow> bool" where
  "nullish JUndefined = True"
| "nullish JNull = True"
| "nullish v = False"

text \<open>\<open>typeof v === 'object'\<close>: objects, arrays and \<open>null\<close>.\<close>

fun typeof_object :: "jsval \<Rightarrow> bool" where
  "typeof_object JNull = True"
| "typeof_object (JArr xs) = True"
| "typeof_object (JObj ps) = True"
| "typeof_object v = False"

fun isArray :: "jsval \<Rightarrow> bool" where
  "isArray (JArr xs) = True"
| "isArray v = False"

fun typeof_string :: "jsval \<Rightarrow> bool" where
  "typeof_string (JStr s) = True"
| "typeof_string v = False"

fun typeof_number :: "jsval \<Rightarrow> bool" where
  "typeof_number (JNum n) = True"
| "typeof_number v = False"

text \<open>\<open>obj[key]\<close> on an association list of own properties; absent gives \<open>undefined\<close>.\<close>

definition lookup :: "jsobj \<Rightarrow> string \<Rightarrow> jsval" where
  "lookup ps key = (case map_of ps key of None \<Rightarrow> JUndefined | Some v \<Rightarrow> v)"

text \<open>
  \<open>body.name\<close> for the four envelope members read by the server. Only an object has
  them; an array or a primitive gives \<open>undefined\<close>. (On \<open>null\<close> and \<open>undefined\<close>
  the read would throw; every read in the source is guarded by \<open>body &&\<close>.)
\<close>

fun member :: "jsval \<Rightarrow> string \<Rightarrow> jsval" where
  "member (JObj ps) key = lookup ps key"
| "member v key = JUndefined"

text \<open>\<open>key in obj\<close> for an object built by the code from \<open>{}\<close>.\<close>

definition key_in :: "string \<Rightarrow> jsobj \<Rightarrow> bool" where
  "key_in key obj = (key \<in> set (map fst obj))"

text \<open>\<open>obj[key] = v\<close>: overwrite in place, or append a new property.\<close>

definition assign :: "string \<Rightarrow> 'v \<Rightarrow> (string \<times> 'v) list \<Rightarrow> (string \<times> 'v) list" where
  "assign key v obj = AList.update key v obj"

section \<open>Thrown values\<close>

text \<open>
  A \<open>throw\<close> or a rejected promise carries either an \<open>Error\<close> instance with its
  message, or a string primitive (\<open>throw "text"\<close>). The source reads a caught value as
  \<open>e instanceof Error ? e.message : String(e)\<close>.
\<close>

datatype thrown = ThrownError string | ThrownString string

fun instanceof_Error :: "thrown \<Rightarrow> bool" where
  "instanceof_Error (ThrownError m) = True"
| "instanceof_Error (ThrownString s) = False"

fun message_or_String :: "thrown \<Rightarrow> string" where
  "message_or_String (ThrownError m) = m"
| "message_or_String (ThrownString s) = s"

section \<open>Command descriptors (CommandHandler.ts)\<close>

text \<open>
  \<open>ArgsTemplate\<close>: one entry per parameter, with the optional \<open>base\<close> flag (absent is
  falsy), a description and the parser. A parser returns the typed value or throws.
  \<open>Command\<close> is \<open>{cmd, description, runtime: {args, parser}}\<close>; the runtime parser is
  the asynchronous execution function: it may call \<open>sendLine\<close> any number of times,
  then resolves with a result or rejects. The model returns the lines sent and the
  settlement of the promise.
\<close>

record arg_spec =
  base :: bool
  description :: string
  parser :: "jsval \<Rightarrow> thrown + jsval"

record command =
  cmd :: string
  cmd_description :: string
  runtime_args :: "(string \<times> arg_spec) list"
  runtime_parser :: "jsobj \<Rightarrow> string list \<times> (thrown + jsval)"

type_synonym commands = "(string \<times> command) list"

definition createCommand ::
  "string \<Rightarrow> string \<Rightarrow> (string \<times> arg_spec) list \<Rightarrow> (jsobj \<Rightarrow> string list \<times> (thrown + jsval))
    \<Rightarrow> command" where
  "createCommand c d as run =
     \<lparr>cmd = c, cmd_description = d, runtime_args = as, runtime_parser = run\<rparr>"

text \<open>
  The registry \<open>this.commands\<close> is a plain object, created as \<open>{}\<close>. The read
  \<open>this.commands[name]\<close> gives the command registered under the name; failing that,
  for the name of a member of \<open>Object.prototype\<close>, that member (a function, or the
  prototype itself for \<open>__proto__\<close>): a value that is not null, is truthy and has no
  \<open>runtime\<close>; and \<open>undefined\<close> for every other name. The list of a registry holds
  its own properties, the registered commands; none is named \<open>__proto__\<close>, a name
  under which an assignment creates no property.
\<close>

datatype 'a found = Own 'a | Inherited | NotFound

definition object_prototype_names :: "string list" where
  "object_prototype_names =
     [''constructor'', ''__defineGetter__'', ''__defineSetter__'', ''hasOwnProperty'',
      ''__lookupGetter__'', ''__lookupSetter__'', ''isPrototypeOf'', ''propertyIsEnumerable'',
      ''toString'', ''valueOf'', ''__proto__'', ''toLocaleString'']"

definition get_command :: "commands \<Rightarrow> string \<Rightarrow> command found" where
  "get_command cmds name =
     (case map_of cmds name of
        Some c \<Rightarrow> Own c
      | None \<Rightarrow> if name \<in> set object_prototype_names then Inherited else NotFound)"

text \<open>
  Reading \<open>runtime.args\<close> of an inherited member throws a \<open>TypeError\<close>, since its
  \<open>runtime\<close> is \<open>undefined\<close>; the message is the one of V8.
\<close>

definition reading_args_of_undefined :: string where
  "reading_args_of_undefined = ''Cannot read properties of undefined (reading 'args')''"

text \<open>
  \<open>CommandHandler.registerCommand\<close>: the test is \<open>this.commands[cmd.cmd] != null\<close>.
  The result is the returned boolean and the registry afterwards.
\<close>

definition registerCommand :: "commands \<Rightarrow> command \<Rightarrow> bool \<times> commands" where
  "registerCommand cmds c =
     (if get_command cmds (cmd c) \<noteq> NotFound then (False, cmds)
      else (True, assign (cmd c) c cmds))"

section \<open>Argument materialization (JsonRpcServer.parseCommandParams)\<close>

text \<open>
  The body shared by every loop of \<open>parseCommandParams\<close>:
  \<^verbatim>\<open>try { paramsObj[key] = args[key].parser(v) }
  catch (e) { throw new Error(`Parsing parameter '${key}': ${...}`) }\<close>
  The function always throws an \<open>Error\<close> instance, so its failure is the message.
\<close>

definition parsing_parameter :: "string \<Rightarrow> string \<Rightarrow> string" where
  "parsing_parameter key m = ''Parsing parameter '' @ [CHR 0x27] @ key @ [CHR 0x27] @ '': '' @ m"

definition try_parse :: "string \<Rightarrow> arg_spec \<Rightarrow> jsval \<Rightarrow> jsobj \<Rightarrow> string + jsobj" where
  "try_parse key a v paramsObj =
     (case parser a v of
        Inl e \<Rightarrow> Inl (parsing_parameter key (message_or_String e))
      | Inr t \<Rightarrow> Inr (assign key t paramsObj))"

text \<open>No parameters provided: \<open>for (const key in args)\<close> parsing \<open>undefined\<close>.\<close>

fun parse_absent :: "(string \<times> arg_spec) list \<Rightarrow> jsobj \<Rightarrow> string + jsobj" where
  "parse_absent [] paramsObj = Inr paramsObj"
| "parse_absent ((key, a) # rest) paramsObj =
     (case try_parse key a JUndefined paramsObj of
        Inl m \<Rightarrow> Inl m
      | Inr paramsObj' \<Rightarrow> parse_absent rest paramsObj')"

text \<open>
  Positional parameters:
  \<open>for (i = 0; i < baseArgs.length && i < params.length; i++)\<close> walks the base
  arguments and the array in step and stops when either runs out.
\<close>

fun parse_positional ::
  "(string \<times> arg_spec) list \<Rightarrow> jsval list \<Rightarrow> jsobj \<Rightarrow> string + jsobj" where
  "parse_positional ((key, a) # baseArgs) (v # params) paramsObj =
     (case try_parse key a v paramsObj of
        Inl m \<Rightarrow> Inl m
      | Inr paramsObj' \<Rightarrow> parse_positional baseArgs params paramsObj')"
| "parse_positional baseArgs params paramsObj = Inr paramsObj"

text \<open>
  The second loop of the array branch: every key that is not \<open>base\<close> and not yet in
  \<open>paramsObj\<close> is parsed from \<open>undefined\<close>.
\<close>

fun parse_remaining :: "(string \<times> arg_spec) list \<Rightarrow> jsobj \<Rightarrow> string + jsobj" where
  "parse_remaining [] paramsObj = Inr paramsObj"
| "parse_remaining ((key, a) # rest) paramsObj =
     (if \<not> base a \<and> \<not> key_in key paramsObj then
        (case try_parse key a JUndefined paramsObj of
           Inl m \<Rightarrow> Inl m
         | Inr paramsObj' \<Rightarrow> parse_remaining rest paramsObj')
      else parse_remaining rest paramsObj)"

text \<open>Named parameters: every key is parsed from \<open>params[key]\<close>.\<close>

fun parse_named :: "(string \<times> arg_spec) list \<Rightarrow> jsobj \<Rightarrow> jsobj \<Rightarrow> string + jsobj" where
  "parse_named [] params paramsObj = Inr paramsObj"
| "parse_named ((key, a) # rest) params paramsObj =
     (case try_parse key a (lookup params key) paramsObj of
        Inl m \<Rightarrow> Inl m
      | Inr paramsObj' \<Rightarrow> parse_named rest params paramsObj')"

definition baseArgs_of :: "command \<Rightarrow> (string \<times> arg_spec) list" where
  "baseArgs_of c = filter (\<lambda>(key, a). base a) (runtime_args c)"

definition parseCommandParams :: "command \<Rightarrow> jsval \<Rightarrow> string + jsobj" where
  "parseCommandParams c params =
     (if falsy params then parse_absent (runtime_args c) []
      else case params of
        JArr vs \<Rightarrow>
          (case parse_positional (baseArgs_of c) vs [] of
             Inl m \<Rightarrow> Inl m
           | Inr paramsObj \<Rightarrow> parse_remaining (runtime_args c) paramsObj)
      | JObj ps \<Rightarrow> parse_named (runtime_args c) ps []
      | _ \<Rightarrow> Inl ''Parameters must be an array or object'')"

section \<open>The JSON-RPC adapter (JsonRpcServer.ts)\<close>

definition PARSE_ERROR :: int where "PARSE_ERROR = - 32700"
definition INVALID_REQUEST :: int where "INVALID_REQUEST = - 32600"
definition METHOD_NOT_FOUND :: int where "METHOD_NOT_FOUND = - 32601"
definition INVALID_PARAMS :: int where "INVALID_PARAMS = - 32602"
definition INTERNAL_ERROR :: int where "INTERNAL_ERROR = - 32603"
definition SERVER_ERROR :: int where "SERVER_ERROR = - 32000"

text \<open>
  \<open>JsonRpcError\<close> and \<open>JsonRpcResponse\<close>; the member \<open>jsonrpc: "2.0"\<close> is
  constant and left out. \<open>err_data\<close> is \<open>None\<close> when the literal has no \<open>data\<close>
  member. The \<open>id\<close> of a response is whatever value the code puts there.
\<close>

record JsonRpcError =
  code :: int
  message :: string
  err_data :: "jsval option"

datatype JsonRpcResponse =
    JsonRpcSuccessResponse jsval jsval
  | JsonRpcErrorResponse JsonRpcError jsval

fun response_id :: "JsonRpcResponse \<Rightarrow> jsval" where
  "response_id (JsonRpcSuccessResponse result i) = i"
| "response_id (JsonRpcErrorResponse e i) = i"

text \<open>\<open>String.prototype.includes\<close>: the argument occurs as a contiguous substring.\<close>

fun str_includes :: "string \<Rightarrow> string \<Rightarrow> bool" where
  "str_includes [] sub = (sub = [])"
| "str_includes (c # cs) sub = (take (length sub) (c # cs) = sub \<or> str_includes cs sub)"

definition isValidJsonRpcRequest :: "jsval \<Rightarrow> bool" where
  "isValidJsonRpcRequest body =
     (\<not> falsy body \<and>
      typeof_object body \<and>
      member body ''jsonrpc'' = JStr ''2.0'' \<and>
      typeof_string (member body ''method'') \<and>
      (member body ''params'' = JUndefined \<or> isArray (member body ''params'') \<or>
       (typeof_object (member body ''params'') \<and> member body ''params'' \<noteq> JNull)) \<and>
      (member body ''id'' = JUndefined \<or> member body ''id'' = JNull \<or>
       typeof_string (member body ''id'') \<or> typeof_number (member body ''id'')))"

text \<open>
  The \<open>catch\<close> block of \<open>handleJsonRpcRequest\<close>: an \<open>Error\<close> whose message
  includes \<open>Parsing parameter\<close> is reported as invalid parameters, anything else as a
  server error.
\<close>

definition catch_response :: "thrown \<Rightarrow> jsval \<Rightarrow> JsonRpcResponse" where
  "catch_response e i =
     (if instanceof_Error e \<and> str_includes (message_or_String e) ''Parsing parameter'' then
        JsonRpcErrorResponse
          \<lparr>code = INVALID_PARAMS, message = ''Invalid params'',
           err_data = Some (JStr (message_or_String e))\<rparr> i
      else
        JsonRpcErrorResponse
          \<lparr>code = SERVER_ERROR, message = ''Server error'',
           err_data = Some (JStr (message_or_String e))\<rparr> i)"

text \<open>The property key \<open>method\<close>; validation has made it a string.\<close>

fun string_of :: "jsval \<Rightarrow> string" where
  "string_of (JStr s) = s"
| "string_of v = []"

text \<open>
  \<open>handleJsonRpcRequest\<close> returns the response together with the executions it made:
  the name and the typed arguments of each call of a command's runtime parser. The lines
  a command sends are dropped (\<open>sendLine\<close> is a no-op here). When the method names an
  inherited member, \<open>parseCommandParams\<close> throws on its first read of
  \<open>command.runtime.args\<close>, in each of its branches, and the \<open>catch\<close> block answers.
\<close>

definition handleJsonRpcRequest ::
  "commands \<Rightarrow> jsval \<Rightarrow> JsonRpcResponse \<times> (string \<times> jsobj) list" where
  "handleJsonRpcRequest cmds body =
     (if isArray body then
        (JsonRpcErrorResponse
           \<lparr>code = INVALID_REQUEST, message = ''Batch requests not supported'',
            err_data = None\<rparr> JNull, [])
      else if \<not> isValidJsonRpcRequest body then
        (JsonRpcErrorResponse
           \<lparr>code = INVALID_REQUEST, message = ''Invalid Request'', err_data = None\<rparr>
           (if \<not> falsy body \<and> member body ''id'' \<noteq> JUndefined then member body ''id''
            else JNull), [])
      else
        let method = string_of (member body ''method'');
            params = member body ''params'';
            i = member body ''id''
        in case get_command cmds method of
             NotFound \<Rightarrow>
               (JsonRpcErrorResponse
                  \<lparr>code = METHOD_NOT_FOUND, message = ''Method not found'',
                   err_data = None\<rparr> i, [])
           | Inherited \<Rightarrow> (catch_response (ThrownError reading_args_of_undefined) i, [])
           | Own command \<Rightarrow>
               (case parseCommandParams command params of
                  Inl m \<Rightarrow> (catch_response (ThrownError m) i, [])
                | Inr parsedArgs \<Rightarrow>
                    (case snd (runtime_parser command parsedArgs) of
                       Inr result \<Rightarrow>
                         (JsonRpcSuccessResponse result i, [(method, parsedArgs)])
                     | Inl e \<Rightarrow> (catch_response e i, [(method, parsedArgs)]))))"

section \<open>The line protocol adapter (TcpCliServer.ts)\<close>

text \<open>
  Strings are lists of 8-bit characters, so a line is a sequence of Latin-1 code units.
  \<open>\s\<close> on these is tab, line feed, vertical tab, form feed, carriage return,
  space and no-break space.
\<close>

definition is_space :: "char \<Rightarrow> bool" where
  "is_space c =
     (c \<in> set [CHR 0x09, CHR 0x0A, CHR 0x0B, CHR 0x0C, CHR 0x0D, CHR 0x20, CHR 0xA0])"

definition dquote :: char where "dquote = CHR 0x22"

text \<open>
  \<open>line.match(/"[^"]+"|[\S]+/g)\<close>: all matches, left to right. At a double quote
  the first alternative applies when a non-empty run without quotes is closed by a second
  quote; otherwise, and at any other non-space character, the second alternative takes
  the longest run of non-space characters. A space character starts no match.
\<close>

function match_tokens :: "string \<Rightarrow> string list" where
  "match_tokens [] = []"
| "match_tokens (c # cs) =
     (if c = dquote \<and> takeWhile (\<lambda>x. x \<noteq> dquote) cs \<noteq> [] \<and>
         dropWhile (\<lambda>x. x \<noteq> dquote) cs \<noteq> [] then
        (c # takeWhile (\<lambda>x. x \<noteq> dquote) cs @ [dquote]) #
          match_tokens (tl (dropWhile (\<lambda>x. x \<noteq> dquote) cs))
      else if \<not> is_space c then
        (c # takeWhile (\<lambda>x. \<not> is_space x) cs) #
          match_tokens (dropWhile (\<lambda>x. \<not> is_space x) cs)
      else match_tokens cs)"
  by pat_completeness auto
termination
proof (relation "measure length")
  fix c :: char and cs :: string
  have "length (tl (dropWhile (\<lambda>x. x \<noteq> dquote) cs)) \<le> length cs"
    using length_dropWhile_le [of "\<lambda>x. x \<noteq> dquote" cs] by simp
  then show "(tl (dropWhile (\<lambda>x. x \<noteq> dquote) cs), c # cs) \<in> measure length"
    by simp
  show "(dropWhile (\<lambda>x. \<not> is_space x) cs, c # cs) \<in> measure length"
    using length_dropWhile_le [of "\<lambda>x. \<not> is_space x" cs] by simp
qed simp_all

text \<open>
  The tokens: each match with its double quotes removed
  (\<open>element.replace(/"/g, '')\<close>); an empty match would be skipped.
\<close>

definition tokens_of :: "string list \<Rightarrow> string list" where
  "tokens_of ms = map (filter (\<lambda>x. x \<noteq> dquote)) (filter (\<lambda>element. element \<noteq> []) ms)"

text \<open>\<open>Array.prototype.join\<close> on strings.\<close>

fun join :: "string \<Rightarrow> string list \<Rightarrow> string" where
  "join sep [] = []"
| "join sep [x] = x"
| "join sep (x # y # ys) = x @ sep @ join sep (y # ys)"

definition getUsageString :: "command \<Rightarrow> string" where
  "getUsageString c =
     cmd c @ '' '' @
     join '' '' (map (\<lambda>(key, a). ''<'' @ key @ ''>'')
                   (filter (\<lambda>(key, a). base a) (runtime_args c)))"

definition getParamsDescription :: "command \<Rightarrow> string list" where
  "getParamsDescription c =
     map (\<lambda>(key, a). ''--'' @ key @ '' : '' @ description a) (runtime_args c)"

definition getCommandHelp :: "command \<Rightarrow> string" where
  "getCommandHelp c =
     join [CHR 0x0A]
       ([''Command: '' @ cmd c,
         ''Description: '' @ cmd_description c,
         ''Usage: '' @ getUsageString c] @
        (if getParamsDescription c \<noteq> [] then [''Params:''] else []) @
        map (\<lambda>param. ''    '' @ param) (getParamsDescription c))"

definition getHelp :: "commands \<Rightarrow> string" where
  "getHelp cmds =
     join [CHR 0x0A]
       ([''Available commands:''] @
        map (\<lambda>(key, c). ''    '' @ key @ '' : '' @ cmd_description c) cmds @
        [''Use 'help <command name>' for usage examples, description & help around a specific command!''])"

text \<open>
  The library functions the adapter calls are parameters of the model: the flag splitter
  \<open>minimist(args, {string: keys})\<close>, whose result is an object with the unflagged
  tokens under \<open>_\<close> and one property per flag, and the two renderings
  \<open>JSON.stringify(v, null, 2)\<close> and \<open>String(v)\<close>.
\<close>

record library =
  minimist :: "string list \<Rightarrow> string list \<Rightarrow> jsobj"
  JSON_stringify :: "jsval \<Rightarrow> string"
  String_of :: "jsval \<Rightarrow> string"

definition formatResponseForCli :: "library \<Rightarrow> jsval \<Rightarrow> string" where
  "formatResponseForCli lib response =
     (case response of
        JStr s \<Rightarrow> s
      | JObj ps \<Rightarrow> JSON_stringify lib response
      | JArr xs \<Rightarrow> JSON_stringify lib response
      | _ \<Rightarrow> String_of lib response)"

text \<open>\<open>a[index]\<close> on an array; out of range gives \<open>undefined\<close>.\<close>

fun element :: "jsval \<Rightarrow> nat \<Rightarrow> jsval" where
  "element (JArr xs) index = (if index < length xs then xs ! index else JUndefined)"
| "element v index = JUndefined"

text \<open>
  \<open>e.message\<close> as the line adapter reads it, with no \<open>instanceof\<close> test: a thrown
  string has no such property and is concatenated as \<open>undefined\<close>.
\<close>

fun dot_message :: "thrown \<Rightarrow> string" where
  "dot_message (ThrownError m) = m"
| "dot_message (ThrownString s) = ''undefined''"

text \<open>
  The loop of \<open>parseLine\<close> over \<open>cmd.runtime.args\<close>, with the running
  \<open>index\<close> into \<open>result._\<close> and the (mutated) \<open>result\<close>. A failure is the
  text the promise resolves with.
\<close>

fun bind_args ::
  "command \<Rightarrow> (string \<times> arg_spec) list \<Rightarrow> nat \<Rightarrow> jsobj \<Rightarrow> jsobj \<Rightarrow> string + jsobj" where
  "bind_args c [] index result paramsObj = Inr paramsObj"
| "bind_args c ((key, a) # rest) index result paramsObj =
     (let result' =
            (if base a \<and> nullish (lookup result key) \<and>
                \<not> nullish (element (lookup result ''_'') index)
             then assign key (element (lookup result ''_'') index) result
             else result);
          index' = (if base a then index + 1 else index)
      in case parser a (lookup result' key) of
           Inl e \<Rightarrow>
             Inl (''Error: Parsing parameter '' @ [CHR 0x27] @ key @ [CHR 0x27] @ '': '' @
                  dot_message e @ [CHR 0x0A, CHR 0x0A] @ getCommandHelp c)
         | Inr t \<Rightarrow> bind_args c rest index' result' (assign key t paramsObj))"

text \<open>
  \<open>parseLine\<close> returns a promise, or throws a \<open>TypeError\<close> before making one:
  \<open>match\<close> returns \<open>null\<close> on a line with no token, and an inherited member found
  in place of a command has no \<open>runtime\<close> (\<open>getUsageString\<close> and the argument of
  \<open>minimist\<close> read \<open>cmd.runtime.args\<close>). The outcome also records what the call
  wrote to the socket through \<open>sendLine\<close> and which command it executed with which
  arguments.
\<close>

datatype reply = Throws string | Resolves string | Rejects thrown

record line_outcome =
  reply :: reply
  socket_writes :: "string list"
  invoked :: "(string \<times> jsobj) list"

definition settled :: "reply \<Rightarrow> line_outcome" where
  "settled r = \<lparr>reply = r, socket_writes = [], invoked = []\<rparr>"

definition parseLine :: "library \<Rightarrow> commands \<Rightarrow> string \<Rightarrow> line_outcome" where
  "parseLine lib cmds line =
     (if line = [] then settled (Resolves [])
      else case tokens_of (match_tokens line) of
        [] \<Rightarrow> settled (Throws ''Cannot read properties of null (reading 'forEach')'')
      | a0 # others \<Rightarrow>
          if a0 = ''help'' then
            (case others of
               [] \<Rightarrow> settled (Resolves (getHelp cmds))
             | a1 # _ \<Rightarrow>
                 (case get_command cmds a1 of
                    NotFound \<Rightarrow> settled (Resolves (getHelp cmds))
                  | Inherited \<Rightarrow> settled (Throws reading_args_of_undefined)
                  | Own c \<Rightarrow> settled (Resolves (getCommandHelp c))))
          else
            (case get_command cmds a0 of
               NotFound \<Rightarrow>
                 settled (Resolves
                   ''Error: Unknown command, please type 'help' to get a list of all commands!'')
             | Inherited \<Rightarrow> settled (Throws reading_args_of_undefined)
             | Own c \<Rightarrow>
                 (case bind_args c (runtime_args c) 1
                         (minimist lib (a0 # others) (''_'' # map fst (runtime_args c))) [] of
                    Inl text \<Rightarrow> settled (Resolves text)
                  | Inr paramsObj \<Rightarrow>
                      \<lparr>reply =
                         (case snd (runtime_parser c paramsObj) of
                            Inr commandResult \<Rightarrow> Resolves (formatResponseForCli lib commandResult)
                          | Inl e \<Rightarrow> Rejects e),
                       socket_writes =
                         map (\<lambda>line. line @ [CHR 0x0A]) (fst (runtime_parser c paramsObj)),
                       invoked = [(a0, paramsObj)]\<rparr>)))"

section \<open>Numbers from text (the built-ins \<open>parseInt\<close> and \<open>parseFloat\<close>)\<close>

text \<open>
  Both built-ins skip leading white space, read the longest prefix that is a numeral and
  ignore what follows; with no such prefix the result is \<open>NaN\<close>. The mathematical
  value read is rounded to the nearest double, ties to even, and to an infinity beyond
  the largest double. (A negative zero is the value zero.)
\<close>

definition pow2 :: "int \<Rightarrow> rat" where
  "pow2 k = (if 0 \<le> k then 2 ^ nat k else 1 / 2 ^ nat (- k))"

function bitlen :: "int \<Rightarrow> nat" where
  "bitlen n = (if n \<le> 0 then 0 else Suc (bitlen (n div 2)))"
  by pat_completeness auto
termination
  by (relation "measure nat") auto

declare bitlen.simps [simp del]

definition round_half_even :: "rat \<Rightarrow> int" where
  "round_half_even q =
     (let f = \<lfloor>q\<rfloor>; d = q - of_int f
      in if d < 1 / 2 then f else if 1 / 2 < d then f + 1 else if even f then f else f + 1)"

text \<open>
  For \<open>q > 0\<close> with numerator \<open>a\<close> and denominator \<open>b\<close>, the binary exponent of
  \<open>q\<close> is \<open>bitlen a - bitlen b\<close> or one less. A double has 53 significant bits
  and no unit in the last place below \<open>2^-1074\<close>; the result is beyond the largest
  double when the exponent exceeds 1023, or is 1023 with the significand rounded up to
  \<open>2^53\<close>.
\<close>

definition round_pos :: "rat \<Rightarrow> jsnum" where
  "round_pos q =
     (let k = int (bitlen (fst (quotient_of q))) - int (bitlen (snd (quotient_of q)));
          e = (if pow2 k \<le> q then k else k - 1);
          u = max (e - 52) (- 1074);
          m = round_half_even (q / pow2 u)
      in if 1023 < e \<or> (e = 1023 \<and> 2 ^ 53 \<le> m) then PosInf else Fin (of_int m * pow2 u))"

definition to_double :: "rat \<Rightarrow> jsnum" where
  "to_double q =
     (if q = 0 then Fin 0
      else if 0 < q then round_pos q
      else (case round_pos (- q) of Fin r \<Rightarrow> Fin (- r) | _ \<Rightarrow> NegInf))"

definition digit_val :: "char \<Rightarrow> nat option" where
  "digit_val c =
     (let n = (of_char c :: nat)
      in if 48 \<le> n \<and> n \<le> 57 then Some (n - 48)
         else if 97 \<le> n \<and> n \<le> 122 then Some (n - 87)
         else if 65 \<le> n \<and> n \<le> 90 then Some (n - 55)
         else None)"

definition is_digit :: "nat \<Rightarrow> char \<Rightarrow> bool" where
  "is_digit R c = (case digit_val c of None \<Rightarrow> False | Some d \<Rightarrow> d < R)"

definition digits_value :: "nat \<Rightarrow> string \<Rightarrow> int" where
  "digits_value R Z =
     foldl (\<lambda>acc c. acc * int R + (case digit_val c of None \<Rightarrow> 0 | Some d \<Rightarrow> int d)) 0 Z"

text \<open>
  \<open>parseInt(string)\<close> with no radix: optional sign, then hexadecimal after
  \<open>0x\<close> or \<open>0X\<close>, decimal otherwise.
\<close>

definition parseInt :: "string \<Rightarrow> jsnum" where
  "parseInt inputString =
     (let S = dropWhile is_space inputString;
          sign = (if take 1 S = ''-'' then - 1 else 1 :: int);
          S1 = (if take 1 S = ''+'' \<or> take 1 S = ''-'' then drop 1 S else S);
          hex = (take 2 S1 = ''0x'' \<or> take 2 S1 = ''0X'');
          R = (if hex then 16 else 10);
          S2 = (if hex then drop 2 S1 else S1);
          Z = takeWhile (is_digit R) S2
      in if Z = [] then NaN else to_double (of_int (sign * digits_value R Z)))"

text \<open>
  \<open>parseFloat(string)\<close>: the longest prefix that is a \<open>StrDecimalLiteral\<close>:
  a sign, then \<open>Infinity\<close> or decimal digits with an optional fraction and an
  optional exponent; an exponent counts only when it has a digit.
\<close>

definition exponent_of :: "string \<Rightarrow> int" where
  "exponent_of S =
     (if take 1 S = ''e'' \<or> take 1 S = ''E'' then
        (let T = drop 1 S;
             neg = (take 1 T = ''-'');
             T1 = (if take 1 T = ''+'' \<or> take 1 T = ''-'' then drop 1 T else T);
             ds = takeWhile (is_digit 10) T1
         in if ds = [] then 0
            else if neg then - digits_value 10 ds else digits_value 10 ds)
      else 0)"

definition parseFloat :: "string \<Rightarrow> jsnum" where
  "parseFloat inputString =
     (let S = dropWhile is_space inputString;
          neg = (take 1 S = ''-'');
          S1 = (if take 1 S = ''+'' \<or> take 1 S = ''-'' then drop 1 S else S)
      in if take 8 S1 = ''Infinity'' then (if neg then NegInf else PosInf)
         else
           let ip = takeWhile (is_digit 10) S1;
               S2 = dropWhile (is_digit 10) S1;
               fp = (if take 1 S2 = ''.'' then takeWhile (is_digit 10) (drop 1 S2) else []);
               S3 = (if take 1 S2 = ''.'' then dropWhile (is_digit 10) (drop 1 S2) else S2);
               m = of_int (digits_value 10 (ip @ fp));
               x = exponent_of S3 - int (length fp);
               v = (if 0 \<le> x then m * 10 ^ nat x else m / 10 ^ nat (- x))
           in if ip = [] \<and> fp = [] then NaN
              else to_double (if neg then - v else v))"

text \<open>
  What a text must start with, after leading white space and one optional sign, for the
  built-ins to read a number from it. For \<open>parseInt\<close>: a decimal digit, or a
  hexadecimal digit after \<open>0x\<close> or \<open>0X\<close>. For \<open>parseFloat\<close>: \<open>Infinity\<close>, a
  decimal digit, or a dot and a decimal digit.
\<close>

definition unsigned_part :: "string \<Rightarrow> string" where
  "unsigned_part text =
     (let S = dropWhile is_space text
      in if take 1 S = ''+'' \<or> take 1 S = ''-'' then drop 1 S else S)"

definition starts_with_digit :: "nat \<Rightarrow> string \<Rightarrow> bool" where
  "starts_with_digit R S = (case S of [] \<Rightarrow> False | c # cs \<Rightarrow> is_digit R c)"

definition integer_numeral_prefix :: "string \<Rightarrow> bool" where
  "integer_numeral_prefix text =
     (let U = unsigned_part text
      in if take 2 U = ''0x'' \<or> take 2 U = ''0X'' then starts_with_digit 16 (drop 2 U)
         else starts_with_digit 10 U)"

definition float_numeral_prefix :: "string \<Rightarrow> bool" where
  "float_numeral_prefix text =
     (let U = unsigned_part text
      in take 8 U = ''Infinity'' \<or> starts_with_digit 10 U \<or>
         (take 1 U = ''.'' \<and> starts_with_digit 10 (drop 1 U)))"

definition numeral_prefix :: "bool \<Rightarrow> string \<Rightarrow> bool" where
  "numeral_prefix decimal text =
     (if decimal then float_numeral_prefix text else integer_numeral_prefix text)"

section \<open>The parameter parser library (CommandHandler.ts)\<close>

text \<open>
  \<open>a < b\<close> on numbers: false when either is \<open>NaN\<close>.
\<close>

fun js_less :: "jsnum \<Rightarrow> jsnum \<Rightarrow> bool" where
  "js_less NaN b = False"
| "js_less a NaN = False"
| "js_less (Fin x) (Fin y) = (x < y)"
| "js_less (Fin x) PosInf = True"
| "js_less (Fin x) NegInf = False"
| "js_less NegInf NegInf = False"
| "js_less NegInf b = True"
| "js_less PosInf b = False"

text \<open>
  The errors \<open>cmdNumberParser\<close> throws, one constructor per \<open>throw\<close>:
  \<open>"Data is null"\<close>, \<open>"Number is NaN or null"\<close>,
  \<open>"Number must be greater than "+min\<close> and \<open>"Number must be less than "+max\<close>.
\<close>

datatype number_error =
    Data_is_null
  | Number_is_NaN_or_null
  | Number_must_be_greater_than jsnum
  | Number_must_be_less_than jsnum

text \<open>
  \<open>cmdNumberParser(decimal, min, max, optional)(data)\<close>. An absent bound or datum
  (\<open>null\<close> or \<open>undefined\<close>) is \<open>None\<close>; the result \<open>Inr None\<close> is the returned
  \<open>null\<close> of an optional parameter.
\<close>

definition cmdNumberParser ::
  "bool \<Rightarrow> jsnum option \<Rightarrow> jsnum option \<Rightarrow> bool \<Rightarrow> string option
    \<Rightarrow> number_error + jsnum option" where
  "cmdNumberParser decimal minv maxv optional data =
     (case data of
        None \<Rightarrow> (if optional then Inr None else Inl Data_is_null)
      | Some text \<Rightarrow>
          (let num = (if decimal then parseFloat text else parseInt text)
           in if num = NaN then Inl Number_is_NaN_or_null
              else if minv \<noteq> None \<and> js_less num (the minv) then
                Inl (Number_must_be_greater_than (the minv))
              else if maxv \<noteq> None \<and> js_less (the maxv) num then
                Inl (Number_must_be_less_than (the maxv))
              else Inr (Some num)))"

text \<open>
  \<open>cmdStringParser(minLength, maxLength, optional)(data)\<close>, on the data its type
  declares: a string, or \<open>None\<close> for \<open>null\<close> and \<open>undefined\<close>. The result
  \<open>Inr None\<close> is the returned \<open>null\<close> of an optional parameter. The bounds are
  rendered in decimal in the messages.
\<close>

fun show_nat :: "nat \<Rightarrow> string" where
  "show_nat n =
     (if n < 10 then [char_of (48 + n)]
      else show_nat (n div 10) @ [char_of (48 + n mod 10)])"

definition cmdStringParser ::
  "nat option \<Rightarrow> nat option \<Rightarrow> bool \<Rightarrow> string option \<Rightarrow> thrown + string option" where
  "cmdStringParser minLength maxLength optional data =
     (case data of
        None \<Rightarrow> (if optional then Inr None else Inl (ThrownError ''Data is null''))
      | Some text \<Rightarrow>
          if minLength \<noteq> None \<and> length text < the minLength then
            Inl (ThrownError (''Invalid string length, min length: '' @ show_nat (the minLength)))
          else if maxLength \<noteq> None \<and> the maxLength < length text then
            Inl (ThrownError (''Invalid string length, max length: '' @ show_nat (the maxLength)))
          else Inr (Some text))"

section \<open>The materializer of the specification\<close>







text \<open>
  Modelled from the spec: the flag splitter \<open>minimist\<close> is a dependency of the
  repository and not part of its source. Section 4.4, step 5: a token \<open>--key=value\<close>
  binds \<open>key\<close> to \<open>value\<close>; a token \<open>--key\<close> binds \<open>key\<close> to the next token
  when there is one that does not start with a dash, and to the empty string otherwise;
  every other token is unflagged. The result object holds the unflagged tokens under
  \<open>_\<close>, all values as strings. The list of string-typed keys is not needed for that.
\<close>

definition flag_of :: "string \<Rightarrow> (string \<times> string option) option" where
  "flag_of t =
     (if take 2 t = ''--'' \<and> 2 < length t then
        Some (takeWhile (\<lambda>x. x \<noteq> CHR ''='') (drop 2 t),
              if CHR ''='' \<in> set (drop 2 t)
              then Some (drop 1 (dropWhile (\<lambda>x. x \<noteq> CHR ''='') (drop 2 t)))
              else None)
      else None)"

fun split_flags :: "string list \<Rightarrow> string list \<times> (string \<times> string) list" where
  "split_flags [] = ([], [])"
| "split_flags (t # rest) =
     (case flag_of t of
        None \<Rightarrow> (t # fst (split_flags rest), snd (split_flags rest))
      | Some (key, Some v) \<Rightarrow> (fst (split_flags rest), (key, v) # snd (split_flags rest))
      | Some (key, None) \<Rightarrow>
          (case rest of
             [] \<Rightarrow> ([], [(key, [])])
           | n # rest' \<Rightarrow>
               if take 1 n \<noteq> ''-'' then
                 (fst (split_flags rest'), (key, n) # snd (split_flags rest'))
               else (fst (split_flags rest), (key, []) # snd (split_flags rest))))"

definition minimist_model :: "string list \<Rightarrow> string list \<Rightarrow> jsobj" where
  "minimist_model args strings =
     foldl (\<lambda>obj (key, v). assign key (JStr v) obj)
       [(''_'', JArr (map JStr (fst (split_flags args))))]
       (snd (split_flags args))"

definition model_library :: library where
  "model_library =
     \<lparr>minimist = minimist_model, JSON_stringify = (\<lambda>v. ''[object]''),
      String_of = (\<lambda>v. ''[value]'')\<rparr>"

section \<open>Example commands\<close>

text \<open>
  The parameters of the example commands take text: a parser of theirs hands a string,
  or nothing for \<open>null\<close> and \<open>undefined\<close>, to a parser of the library, and throws
  on any other value.
\<close>

definition text_only :: "(string option \<Rightarrow> thrown + string option) \<Rightarrow> jsval \<Rightarrow> thrown + jsval" where
  "text_only p data =
     (case data of
        JStr s \<Rightarrow> map_sum id (\<lambda>r. case r of None \<Rightarrow> JNull | Some t \<Rightarrow> JStr t) (p (Some s))
      | JUndefined \<Rightarrow> map_sum id (\<lambda>r. case r of None \<Rightarrow> JNull | Some t \<Rightarrow> JStr t) (p None)
      | JNull \<Rightarrow> map_sum id (\<lambda>r. case r of None \<Rightarrow> JNull | Some t \<Rightarrow> JStr t) (p None)
      | _ \<Rightarrow> Inl (ThrownError ''Not a string''))"

text \<open>
  Each command runs by resolving with its typed arguments. \<open>add\<close> has the positional parameter \<open>a\<close> and the named parameter
  \<open>b\<close>; \<open>pair\<close> has two required positional parameters; \<open>flagged\<close> declares
  a required named parameter before a positional one of at least three characters;
  \<open>two\<close> has two optional positional parameters; \<open>boom\<close> takes no parameter
  and rejects with a message that speaks of parsing a parameter.
\<close>

definition required :: arg_spec where
  "required = \<lparr>base = False, description = ''required'', parser = text_only (cmdStringParser None None False)\<rparr>"

definition echo :: "jsobj \<Rightarrow> string list \<times> (thrown + jsval)" where
  "echo typedArgs = ([], Inr (JObj typedArgs))"

definition add_cmd :: command where
  "add_cmd = createCommand ''add'' ''adds'' [(''a'', required\<lparr>base := True\<rparr>), (''b'', required)] echo"

definition pair_cmd :: command where
  "pair_cmd =
     createCommand ''pair'' ''pairs''
       [(''a'', required\<lparr>base := True\<rparr>), (''b'', required\<lparr>base := True\<rparr>)] echo"



definition boom_cmd :: command where
  "boom_cmd =
     createCommand ''boom'' ''fails'' []
       (\<lambda>typedArgs. ([], Inl (ThrownError ''Parsing parameter cache failed'')))"

section \<open>What the source loops compute\<close>

text \<open>
  \<open>parseCommandParams\<close> reports a failure as an \<open>Error\<close> whose message names the
  parameter.
\<close>

definition render :: "(string \<times> thrown) + jsobj \<Rightarrow> string + jsobj" where
  "render r = (case r of Inl (key, e) \<Rightarrow> Inl (parsing_parameter key (message_or_String e)) | Inr po \<Rightarrow> Inr po)"




section \<open>Objects and the materializer\<close>


lemma map_of_assign: "map_of (assign key v obj) = (map_of obj)(key \<mapsto> v)"
  unfolding assign_def by (rule update_conv')













lemma render_Inl [simp]: "render (Inl (key, e)) = Inl (parsing_parameter key (message_or_String e))"
  by (simp add: render_def)

lemma render_Inr [simp]: "render (Inr po) = Inr po"
  by (simp add: render_def)





section \<open>The claims\<close>

text \<open>
  C7: a request body that is an array, whatever it holds and whatever is registered, is
  answered with the error \<open>-32600\<close>, message \<open>Batch requests not supported\<close>,
  \<open>id\<close> null, and no command is executed.
\<close>

theorem batch_rejected:
  "handleJsonRpcRequest cmds (JArr xs) =
     (JsonRpcErrorResponse
        \<lparr>code = - 32600, message = ''Batch requests not supported'', err_data = None\<rparr> JNull, [])"
  by (simp add: handleJsonRpcRequest_def INVALID_REQUEST_def)

lemma get_command_Own: "get_command cmds name = Own c \<longleftrightarrow> map_of cmds name = Some c"
  by (auto simp: get_command_def split: option.splits)

lemma get_command_NotFound:
  "get_command cmds name = NotFound \<longleftrightarrow>
     map_of cmds name = None \<and> name \<notin> set object_prototype_names"
  by (auto simp: get_command_def split: option.splits)

text \<open>
  Where \<open>registerCommand\<close> is insert-once: a registered name is refused and the
  registry is left as it was; a name that is neither registered nor the name of a member
  of \<open>Object.prototype\<close> is inserted.
\<close>

lemma registerCommand_own_names:
  "(map_of cmds (cmd c) = Some c0 \<longrightarrow>
      registerCommand cmds c = (False, cmds) \<and>
      map_of (snd (registerCommand cmds c)) (cmd c) = Some c0) \<and>
   (map_of cmds (cmd c) = None \<and> cmd c \<notin> set object_prototype_names \<longrightarrow>
      fst (registerCommand cmds c) = True \<and>
      map_of (snd (registerCommand cmds c)) = (map_of cmds)(cmd c \<mapsto> c))"
  by (simp add: registerCommand_def map_of_assign get_command_NotFound get_command_def)

text \<open>
  C6, at a failing input. No command is registered, and the descriptor is named
  \<open>toString\<close>. The claim has \<open>registerCommand\<close> insert it and return true. The
  test \<open>this.commands[cmd.cmd] != null\<close> finds the member that the empty registry
  inherits from \<open>Object.prototype\<close>: the code returns false and inserts nothing.
\<close>

theorem registerCommand_refuses_inherited_name:
  "map_of [] (cmd (pair_cmd\<lparr>cmd := ''toString''\<rparr>)) = None \<and>
   registerCommand [] (pair_cmd\<lparr>cmd := ''toString''\<rparr>) = (False, [])"
  by (simp add: registerCommand_def get_command_def object_prototype_names_def)





text \<open>
  C1, at a failing input. \<open>pair\<close> has two required positional parameters and the
  array supplies one value. The claim has the parser of \<open>b\<close> run on the absent value
  (it throws \<open>Data is null\<close>) and an entry for every declared parameter. The array
  branch never runs it: materialization succeeds with \<open>a\<close> alone and the command is
  executed with that. The named branch and the branch for absent parameters do report
  the missing parameter.
\<close>

theorem unassigned_positional_not_parsed:
  "parseCommandParams pair_cmd (JArr [JStr ''5'']) = Inr [(''a'', JStr ''5'')] \<and>
   parser (the (map_of (runtime_args pair_cmd) ''b'')) JUndefined = Inl (ThrownError ''Data is null'') \<and>
   snd (handleJsonRpcRequest [(''pair'', pair_cmd)]
          (JObj [(''jsonrpc'', JStr ''2.0''), (''method'', JStr ''pair''),
                 (''params'', JArr [JStr ''5'']), (''id'', JNum (Fin 1))])) =
     [(''pair'', [(''a'', JStr ''5'')])] \<and>
   parseCommandParams pair_cmd (JObj [(''a'', JStr ''5'')]) =
     Inl ''Parsing parameter 'b': Data is null'' \<and>
   parseCommandParams pair_cmd JUndefined = Inl ''Parsing parameter 'a': Data is null''"
  by code_simp


text \<open>
  C4, at a failing input: the body is invalid because its \<open>id\<close> is a boolean. The
  claim has the response carry \<open>id\<close> null; the code echoes the boolean.
\<close>

theorem invalid_request_echoes_ill_typed_id:
  "\<not> isValidJsonRpcRequest
       (JObj [(''jsonrpc'', JStr ''2.0''), (''method'', JStr ''add''), (''id'', JBool True)]) \<and>
   handleJsonRpcRequest [(''add'', add_cmd)]
       (JObj [(''jsonrpc'', JStr ''2.0''), (''method'', JStr ''add''), (''id'', JBool True)]) =
     (JsonRpcErrorResponse
        \<lparr>code = - 32600, message = ''Invalid Request'', err_data = None\<rparr> (JBool True), [])"
  by code_simp

text \<open>
  C3, at a failing input. \<open>boom\<close> takes no parameter, so materialization succeeds,
  and its execution rejects with an \<open>Error\<close> whose message contains
  \<open>Parsing parameter\<close>. The claim has this execution failure answered with
  \<open>-32000\<close>. The \<open>catch\<close> block recognises a parsing failure by that text in the
  message, not by where the failure arose, and answers \<open>-32602\<close> (invalid
  parameters).
\<close>

theorem execution_failure_reported_as_invalid_params:
  "parseCommandParams boom_cmd JUndefined = Inr [] \<and>
   snd (runtime_parser boom_cmd []) = Inl (ThrownError ''Parsing parameter cache failed'') \<and>
   handleJsonRpcRequest [(''boom'', boom_cmd)]
       (JObj [(''jsonrpc'', JStr ''2.0''), (''method'', JStr ''boom''), (''id'', JNum (Fin 1))]) =
     (JsonRpcErrorResponse
        \<lparr>code = - 32602, message = ''Invalid params'',
         err_data = Some (JStr ''Parsing parameter cache failed'')\<rparr> (JNum (Fin 1)),
      [(''boom'', [])])"
  by code_simp



lemma str_includes_prefix: "sub \<noteq> [] \<Longrightarrow> str_includes (sub @ rest) sub"
  by (cases sub) simp_all

lemma parsing_parameter_includes:
  "str_includes (parsing_parameter key m) ''Parsing parameter''"
proof -
  have "parsing_parameter key m = ''Parsing parameter'' @ ('' '' @ [CHR 0x27] @ key @ [CHR 0x27] @ '': '' @ m)"
    (is "_ = _ @ ?rest") by (simp add: parsing_parameter_def)
  moreover have "str_includes (''Parsing parameter'' @ ?rest) ''Parsing parameter''"
    by (rule str_includes_prefix) simp
  ultimately show ?thesis by (simp only:)
qed

lemma try_parse_Inl:
  "try_parse key a v po = Inl m \<Longrightarrow> \<exists>key msg. m = parsing_parameter key msg"
  by (auto simp: try_parse_def split: sum.splits)

lemma parse_absent_Inl:
  "parse_absent as po = Inl m \<Longrightarrow> \<exists>key msg. m = parsing_parameter key msg"
  by (induction as po rule: parse_absent.induct) (auto split: sum.splits dest: try_parse_Inl)

lemma parse_named_Inl:
  "parse_named as ps po = Inl m \<Longrightarrow> \<exists>key msg. m = parsing_parameter key msg"
  by (induction as ps po rule: parse_named.induct) (auto split: sum.splits dest: try_parse_Inl)

lemma parse_positional_Inl:
  "parse_positional bs vs po = Inl m \<Longrightarrow> \<exists>key msg. m = parsing_parameter key msg"
  by (induction bs vs po rule: parse_positional.induct) (auto split: sum.splits dest: try_parse_Inl)

lemma parse_remaining_Inl:
  "parse_remaining as po = Inl m \<Longrightarrow> \<exists>key msg. m = parsing_parameter key msg"
  by (induction as po rule: parse_remaining.induct) (auto split: sum.splits if_splits dest: try_parse_Inl)

lemma valid_params_shape:
  "isValidJsonRpcRequest body \<Longrightarrow>
   member body ''params'' = JUndefined \<or> (\<exists>vs. member body ''params'' = JArr vs) \<or>
   (\<exists>ps. member body ''params'' = JObj ps)"
  unfolding isValidJsonRpcRequest_def by (cases "member body ''params''") auto

lemma parseCommandParams_Inl:
  assumes "isValidJsonRpcRequest body" and "parseCommandParams c (member body ''params'') = Inl m"
  shows "\<exists>key msg. m = parsing_parameter key msg"
proof -
  from valid_params_shape [OF assms(1)] consider
    "member body ''params'' = JUndefined" | vs where "member body ''params'' = JArr vs" |
    ps where "member body ''params'' = JObj ps" by blast
  then show ?thesis
  proof cases
    case 1
    with assms(2) show ?thesis by (auto simp: parseCommandParams_def dest: parse_absent_Inl)
  next
    case 2
    with assms(2) show ?thesis
      by (auto simp: parseCommandParams_def split: sum.splits
          dest: parse_positional_Inl parse_remaining_Inl)
  next
    case 3
    with assms(2) show ?thesis by (auto simp: parseCommandParams_def dest: parse_named_Inl)
  qed
qed

text \<open>
  Where the two kinds of failure are told apart, for a valid request of a registered
  method: a materialization failure is answered with \<open>-32602\<close>, \<open>data\<close> the message
  \<open>Parsing parameter '<name>': ...\<close>, and nothing is executed; an execution failure
  that is not an \<open>Error\<close> whose message contains \<open>Parsing parameter\<close> is answered
  with \<open>-32000\<close>, \<open>data\<close> the failure message.
\<close>

lemma failure_classification:
  assumes "\<not> isArray body" and "isValidJsonRpcRequest body"
    and "map_of cmds (string_of (member body ''method'')) = Some c"
  shows
    "(parseCommandParams c (member body ''params'') = Inl m \<longrightarrow>
        (\<exists>key msg. m = parsing_parameter key msg) \<and>
        handleJsonRpcRequest cmds body =
          (JsonRpcErrorResponse
             \<lparr>code = - 32602, message = ''Invalid params'', err_data = Some (JStr m)\<rparr>
             (member body ''id''), [])) \<and>
     (parseCommandParams c (member body ''params'') = Inr typedArgs \<and>
      snd (runtime_parser c typedArgs) = Inl e \<and>
      \<not> (instanceof_Error e \<and> str_includes (message_or_String e) ''Parsing parameter'') \<longrightarrow>
        handleJsonRpcRequest cmds body =
          (JsonRpcErrorResponse
             \<lparr>code = - 32000, message = ''Server error'',
              err_data = Some (JStr (message_or_String e))\<rparr>
             (member body ''id''),
           [(string_of (member body ''method''), typedArgs)]))"
proof -
  from assms(3) have own: "get_command cmds (string_of (member body ''method'')) = Own c"
    by (simp add: get_command_Own)
  show ?thesis
  proof (intro conjI impI)
    assume f: "parseCommandParams c (member body ''params'') = Inl m"
    from parseCommandParams_Inl [OF assms(2) f]
    show k: "\<exists>key msg. m = parsing_parameter key msg" .
    then have "str_includes m ''Parsing parameter''" using parsing_parameter_includes by auto
    with assms(1,2) own f show "handleJsonRpcRequest cmds body =
            (JsonRpcErrorResponse
               \<lparr>code = - 32602, message = ''Invalid params'', err_data = Some (JStr m)\<rparr>
               (member body ''id''), [])"
      by (simp add: handleJsonRpcRequest_def catch_response_def INVALID_PARAMS_def Let_def)
  next
    assume "parseCommandParams c (member body ''params'') = Inr typedArgs \<and>
        snd (runtime_parser c typedArgs) = Inl e \<and>
        \<not> (instanceof_Error e \<and> str_includes (message_or_String e) ''Parsing parameter'')"
    with assms(1,2) own show "handleJsonRpcRequest cmds body =
            (JsonRpcErrorResponse
               \<lparr>code = - 32000, message = ''Server error'',
                err_data = Some (JStr (message_or_String e))\<rparr>
               (member body ''id''),
             [(string_of (member body ''method''), typedArgs)])"
      by (auto simp: handleJsonRpcRequest_def catch_response_def SERVER_ERROR_def Let_def)
  qed
qed





text \<open>
  C9, amended. When the first token of a line is not \<open>help\<close>, names no registered
  command and is not the name of a member of \<open>Object.prototype\<close>, the adapter replies
  with the text below, which starts with \<open>Error: \<close>, writes nothing else to the
  socket and executes no command.
\<close>

theorem unknown_command_reply:
  assumes "tokens_of (match_tokens line) = a0 # others" and "a0 \<noteq> ''help''"
    and "map_of cmds a0 = None" and "a0 \<notin> set object_prototype_names"
  shows "parseLine lib cmds line =
     \<lparr>reply = Resolves ''Error: Unknown command, please type 'help' to get a list of all commands!'',
      socket_writes = [], invoked = []\<rparr>"
proof -
  from assms(1) have "line \<noteq> []" by (auto simp: tokens_of_def)
  moreover from assms(3,4) have "get_command cmds a0 = NotFound"
    by (simp add: get_command_NotFound)
  ultimately show ?thesis using assms(1,2) by (simp add: parseLine_def settled_def)
qed

theorem unknown_command_reply_witness:
  "tokens_of (match_tokens ''foo bar'') = [''foo'', ''bar''] \<and> ''foo'' \<noteq> ''help'' \<and>
   map_of [(''add'', add_cmd)] ''foo'' = None \<and> ''foo'' \<notin> set object_prototype_names \<and>
   parseLine model_library [(''add'', add_cmd)] ''foo bar'' =
     \<lparr>reply = Resolves ''Error: Unknown command, please type 'help' to get a list of all commands!'',
      socket_writes = [], invoked = []\<rparr>"
proof -
  have t: "tokens_of (match_tokens ''foo bar'') = [''foo'', ''bar'']" by code_simp
  have n: "''foo'' \<noteq> ''help''" by simp
  have m: "map_of [(''add'', add_cmd)] ''foo'' = None" by simp
  have p: "''foo'' \<notin> set object_prototype_names" by (simp add: object_prototype_names_def)
  from unknown_command_reply [OF t n m p, of model_library] t n m p show ?thesis by simp
qed

text \<open>
  A first token that names a member of \<open>Object.prototype\<close> is outside the amended
  claim: the lookup finds the inherited member, and reading its \<open>runtime.args\<close> throws
  before any reply is made.
\<close>

lemma inherited_name_throws:
  "reply (parseLine model_library [(''add'', add_cmd)] ''toString'') =
     Throws ''Cannot read properties of undefined (reading 'args')''"
  by code_simp

text \<open>
  C9 fails as stated: the reply is not the literal text of the claim; it carries the
  prefix \<open>Error: \<close>.
\<close>

theorem unknown_command_literal_counterexample:
  "reply (parseLine model_library [(''add'', add_cmd)] ''foo'') \<noteq>
     Resolves ''Unknown command, please type 'help' to get a list of all commands!'' \<and>
   reply (parseLine model_library [(''add'', add_cmd)] ''foo'') =
     Resolves ''Error: Unknown command, please type 'help' to get a list of all commands!''"
  by code_simp





lemma round_pos_not_NaN: "round_pos q \<noteq> NaN"
  by (simp add: round_pos_def Let_def)

lemma to_double_not_NaN: "to_double q \<noteq> NaN"
  using round_pos_not_NaN [of q] round_pos_not_NaN [of "- q"]
  by (auto simp: to_double_def split: jsnum.splits)

lemma takeWhile_Nil_iff: "takeWhile (is_digit R) S = [] \<longleftrightarrow> \<not> starts_with_digit R S"
  by (cases S) (auto simp: starts_with_digit_def)

lemma parseInt_NaN_iff: "parseInt text = NaN \<longleftrightarrow> \<not> integer_numeral_prefix text"
  by (simp add: parseInt_def integer_numeral_prefix_def unsigned_part_def Let_def
      to_double_not_NaN takeWhile_Nil_iff)



lemma parseFloat_NaN_iff: "parseFloat text = NaN \<longleftrightarrow> \<not> float_numeral_prefix text"
proof -
  let ?U = "unsigned_part text"
  have ip: "takeWhile (is_digit 10) ?U = [] \<Longrightarrow> dropWhile (is_digit 10) ?U = ?U"
    by (cases ?U) (auto split: if_splits)
  show ?thesis
  proof (cases "takeWhile (is_digit 10) ?U = []")
    case True
    with ip show ?thesis
      by (auto simp: parseFloat_def float_numeral_prefix_def unsigned_part_def Let_def
          to_double_not_NaN takeWhile_Nil_iff)
  next
    case False
    then show ?thesis
      by (auto simp: parseFloat_def float_numeral_prefix_def unsigned_part_def Let_def
          to_double_not_NaN takeWhile_Nil_iff)
  qed
qed

lemma digit_code: "is_digit 10 c \<Longrightarrow> 48 \<le> (of_char c :: nat) \<and> (of_char c :: nat) \<le> 57"
  by (auto simp: is_digit_def digit_val_def Let_def split: if_splits)

lemma digit_not_other:
  assumes "is_digit 10 c"
  shows "\<not> is_space c" "c \<noteq> CHR ''+''" "c \<noteq> CHR ''-''" "c \<noteq> CHR ''x''" "c \<noteq> CHR ''X''"
  using digit_code [OF assms] by (auto simp: is_space_def)

lemma parseInt_digits:
  assumes "ds \<noteq> []" and "\<forall>c \<in> set ds. is_digit 10 c"
    and "\<not> starts_with_digit 10 rest" and "take 1 rest \<noteq> ''x''" and "take 1 rest \<noteq> ''X''"
  shows "parseInt (ds @ rest) = to_double (of_int (digits_value 10 ds))"
proof -
  from assms(1) obtain d ds' where ds: "ds = d # ds'" by (cases ds) auto
  with assms(2) have d: "is_digit 10 d" by simp
  note nd = digit_not_other [OF d]
  have sp: "dropWhile is_space (ds @ rest) = ds @ rest" using ds nd(1) by simp
  have sg: "take 1 (ds @ rest) \<noteq> ''+''" "take 1 (ds @ rest) \<noteq> ''-''" using ds nd by auto
  have hx: "take 2 (ds @ rest) \<noteq> ''0x''" "take 2 (ds @ rest) \<noteq> ''0X''"
  proof -
    show "take 2 (ds @ rest) \<noteq> ''0x''"
    proof (cases ds')
      case Nil
      with ds assms(4) show ?thesis by (cases rest) auto
    next
      case (Cons e es)
      with ds assms(2) have "is_digit 10 e" by simp
      from digit_not_other(4) [OF this] ds Cons show ?thesis by auto
    qed
    show "take 2 (ds @ rest) \<noteq> ''0X''"
    proof (cases ds')
      case Nil
      with ds assms(5) show ?thesis by (cases rest) auto
    next
      case (Cons e es)
      with ds assms(2) have "is_digit 10 e" by simp
      from digit_not_other(5) [OF this] ds Cons show ?thesis by auto
    qed
  qed
  have tw: "takeWhile (is_digit 10) (ds @ rest) = ds"
    using assms(2,3) by (simp add: takeWhile_append2 takeWhile_Nil_iff)
  show ?thesis
    unfolding parseInt_def Let_def sp using sg hx tw assms(1) by simp
qed

lemma parseInt_trailing:
  assumes "ds \<noteq> []" and "\<forall>c \<in> set ds. is_digit 10 c"
    and "\<not> starts_with_digit 10 rest" and "take 1 rest \<noteq> ''x''" and "take 1 rest \<noteq> ''X''"
  shows "parseInt (ds @ rest) = parseInt ds"
  using parseInt_digits [OF assms] parseInt_digits [OF assms(1,2), of "[]"]
  by (simp add: starts_with_digit_def)


lemma parse_examples:
  "parseInt ''150'' = Fin 150" "parseFloat ''150'' = Fin 150"
  "parseInt ''100'' = Fin 100" "parseFloat ''100'' = Fin 100"
  "parseInt ''-1'' = Fin (- 1)" "parseFloat ''-1'' = Fin (- 1)"
  by code_simp+

lemma cmdNumberParser_Some:
  assumes "num = (if decimal then parseFloat text else parseInt text)"
    and "result = cmdNumberParser decimal minv maxv optional (Some text)"
  shows "result = (if num = NaN then Inl Number_is_NaN_or_null
              else if minv \<noteq> None \<and> js_less num (the minv) then
                Inl (Number_must_be_greater_than (the minv))
              else if maxv \<noteq> None \<and> js_less (the maxv) num then
                Inl (Number_must_be_less_than (the maxv))
              else Inr (Some num))"
  by (simp add: assms cmdNumberParser_def Let_def)

lemma cmdNumberParser_examples:
  "isl (cmdNumberParser decimal (Some (Fin 0)) (Some (Fin 100)) optional (Some ''150''))"
  "cmdNumberParser decimal (Some (Fin 0)) (Some (Fin 100)) optional (Some ''100'') =
     Inr (Some (Fin 100))"
  "isl (cmdNumberParser decimal (Some (Fin 0)) (Some (Fin 100)) optional (Some ''-1''))"
  by (simp_all add: cmdNumberParser_Some [OF refl refl] parse_examples)

lemma NaN_iff_no_prefix:
  "(if decimal then parseFloat text else parseInt text) = NaN \<longleftrightarrow> \<not> numeral_prefix decimal text"
  by (simp add: numeral_prefix_def parseInt_NaN_iff parseFloat_NaN_iff)

text \<open>
  C8, amended. The parser reads a number from the start of the text and ignores what
  follows it. It fails exactly when the text does not start with a numeral of the
  requested representation, or the number read is below the lower bound, or above the
  upper bound; otherwise it returns the number read. With finite bounds it succeeds
  exactly on the closed interval. After a run of decimal digits, text that does not go
  on with a digit (nor with \<open>x\<close>) changes nothing for the integer parser. With the
  bounds 0 and 100, whatever the representation, \<open>150\<close> and \<open>-1\<close> fail and
  \<open>100\<close> gives 100.
\<close>

theorem cmdNumberParser_numeral_prefix:
  assumes "num = (if decimal then parseFloat text else parseInt text)"
    and "result = cmdNumberParser decimal minv maxv optional (Some text)"
  shows
    "(isl result \<longleftrightarrow>
        \<not> numeral_prefix decimal text \<or> (\<exists>lo. minv = Some lo \<and> js_less num lo) \<or>
        (\<exists>hi. maxv = Some hi \<and> js_less hi num)) \<and>
     (\<not> numeral_prefix decimal text \<longrightarrow> result = Inl Number_is_NaN_or_null) \<and>
     (\<not> isl result \<longrightarrow> result = Inr (Some num)) \<and>
     (\<forall>v a b. num = Fin v \<and> minv = Some (Fin a) \<and> maxv = Some (Fin b) \<longrightarrow>
        (result = Inr (Some (Fin v)) \<longleftrightarrow> a \<le> v \<and> v \<le> b)) \<and>
     (\<forall>ds rest. ds \<noteq> [] \<and> (\<forall>c \<in> set ds. is_digit 10 c) \<and> \<not> starts_with_digit 10 rest \<and>
        take 1 rest \<noteq> ''x'' \<and> take 1 rest \<noteq> ''X'' \<longrightarrow>
        parseInt (ds @ rest) = parseInt ds) \<and>
     isl (cmdNumberParser decimal (Some (Fin 0)) (Some (Fin 100)) optional (Some ''150'')) \<and>
     cmdNumberParser decimal (Some (Fin 0)) (Some (Fin 100)) optional (Some ''100'') =
       Inr (Some (Fin 100)) \<and>
     isl (cmdNumberParser decimal (Some (Fin 0)) (Some (Fin 100)) optional (Some ''-1''))"
proof -
  note r = cmdNumberParser_Some [OF assms]
  have n: "num = NaN \<longleftrightarrow> \<not> numeral_prefix decimal text"
    unfolding assms(1) by (rule NaN_iff_no_prefix)
  have c1: "isl result \<longleftrightarrow>
        \<not> numeral_prefix decimal text \<or> (\<exists>lo. minv = Some lo \<and> js_less num lo) \<or>
        (\<exists>hi. maxv = Some hi \<and> js_less hi num)"
    unfolding r n [symmetric] by (cases minv; cases maxv) auto
  have c2: "\<not> numeral_prefix decimal text \<longrightarrow> result = Inl Number_is_NaN_or_null"
    unfolding r n [symmetric] by simp
  have c3: "\<not> isl result \<longrightarrow> result = Inr (Some num)"
    unfolding r by simp
  have c4: "\<forall>v a b. num = Fin v \<and> minv = Some (Fin a) \<and> maxv = Some (Fin b) \<longrightarrow>
        (result = Inr (Some (Fin v)) \<longleftrightarrow> a \<le> v \<and> v \<le> b)"
  proof (intro allI impI)
    fix v a b
    assume "num = Fin v \<and> minv = Some (Fin a) \<and> maxv = Some (Fin b)"
    then show "result = Inr (Some (Fin v)) \<longleftrightarrow> a \<le> v \<and> v \<le> b"
      by (simp add: r not_less)
  qed
  have c5: "\<forall>ds rest. ds \<noteq> [] \<and> (\<forall>c \<in> set ds. is_digit 10 c) \<and> \<not> starts_with_digit 10 rest \<and>
        take 1 rest \<noteq> ''x'' \<and> take 1 rest \<noteq> ''X'' \<longrightarrow>
        parseInt (ds @ rest) = parseInt ds"
    using parseInt_trailing by blast
  show ?thesis
    by (intro conjI) (rule c1 c2 c3 c4 c5 cmdNumberParser_examples)+
qed

text \<open>
  C8 fails: \<open>99.9\<close> and \<open>12abc\<close> are not integers and \<open>5 apples\<close> is not a
  number, so none of them parses as a number in the requested representation; the
  parser does not fail on them, it returns the number their first characters spell.
\<close>

theorem integer_parser_accepts_non_integer_text:
  "cmdNumberParser False (Some (Fin 0)) (Some (Fin 100)) False (Some ''99.9'') =
     Inr (Some (Fin 99)) \<and>
   cmdNumberParser False (Some (Fin 0)) (Some (Fin 100)) False (Some ''12abc'') =
     Inr (Some (Fin 12)) \<and>
   cmdNumberParser True (Some (Fin 0)) (Some (Fin 100)) False (Some ''5 apples'') =
     Inr (Some (Fin 5))"
  by code_simp

theorem cmdNumberParser_numeral_prefix_witness:
  "\<not> numeral_prefix False ''abc'' \<and>
   cmdNumberParser False (Some (Fin 0)) (Some (Fin 100)) False (Some ''abc'') =
     Inl Number_is_NaN_or_null \<and>
   parseFloat ''1.5e2x'' = Fin 150 \<and> js_less (Fin 100) (Fin 150) \<and>
   isl (cmdNumberParser True (Some (Fin 0)) (Some (Fin 100)) False (Some ''1.5e2x'')) \<and>
   parseInt ''12abc'' = parseInt ''12'' \<and>
   cmdNumberParser False (Some (Fin 0)) (Some (Fin 100)) False (Some ''12abc'') =
     Inr (Some (Fin 12))"
proof -
  note A = cmdNumberParser_numeral_prefix [OF refl refl, of False "Some (Fin 0)"
      "Some (Fin 100)" False "''abc''"]
  note B = cmdNumberParser_numeral_prefix [OF refl refl, of True "Some (Fin 0)"
      "Some (Fin 100)" False "''1.5e2x''"]
  note C = cmdNumberParser_numeral_prefix [OF refl refl, of False "Some (Fin 0)"
      "Some (Fin 100)" False "''12abc''"]
  have w1: "\<not> numeral_prefix False ''abc''" by code_simp
  have w2: "cmdNumberParser False (Some (Fin 0)) (Some (Fin 100)) False (Some ''abc'') =
     Inl Number_is_NaN_or_null"
    using A [THEN conjunct2, THEN conjunct1] w1 by blast
  have w3: "parseFloat ''1.5e2x'' = Fin 150" by code_simp
  have w4: "js_less (Fin 100) (Fin 150)" by simp
  have w5: "isl (cmdNumberParser True (Some (Fin 0)) (Some (Fin 100)) False (Some ''1.5e2x''))"
    using B [THEN conjunct1] w3 w4 by simp
  have w6: "parseInt ''12abc'' = parseInt ''12''"
    using C [THEN conjunct2, THEN conjunct2, THEN conjunct2, THEN conjunct2, THEN conjunct1,
        rule_format, of "''12''" "''abc''"]
    by (simp add: is_digit_def digit_val_def starts_with_digit_def)
  have p: "parseInt ''12abc'' = Fin 12" by code_simp
  have w7: "cmdNumberParser False (Some (Fin 0)) (Some (Fin 100)) False (Some ''12abc'') =
     Inr (Some (Fin 12))"
    using C [THEN conjunct2, THEN conjunct2, THEN conjunct2, THEN conjunct1, rule_format,
        of 12 0 100] p
    by simp
  show ?thesis by (intro conjI) (rule w1 w2 w3 w4 w5 w6 w7)+
qed

end
